theory Spec2Isabelle
  imports Complex_Main
begin

section \<open>Values\<close>

text \<open>
  The script \<^verbatim>\<open>extract_audio_features.py\<close> computes on numpy arrays of floats. A
  finite float is modelled by the real number it stands for (rounding and overflow are
  not modelled); the three non-finite floats are values of their own, because numpy's
  division produces them instead of raising.
\<close>

datatype npfloat = Fin real | PosInf | NegInf | NaN

text \<open>
  numpy's true division \<^verbatim>\<open>a / b\<close> of two finite floats: a zero divisor gives NaN
  for \<^verbatim>\<open>0 / 0\<close> and a signed infinity otherwise (a RuntimeWarning, no exception).
\<close>

definition np_div :: "real \<Rightarrow> real \<Rightarrow> npfloat" where
  "np_div a b =
     (if b \<noteq> 0 then Fin (a / b)
      else if a = 0 then NaN
      else if 0 < a then PosInf else NegInf)"

fun is_finite :: "npfloat \<Rightarrow> bool" where
  "is_finite (Fin x) = True"
| "is_finite PosInf = False"
| "is_finite NegInf = False"
| "is_finite NaN = False"

text \<open>Whether a float lies in the closed interval from \<open>lo\<close> to \<open>hi\<close>; false for NaN.\<close>

fun in_range :: "real \<Rightarrow> real \<Rightarrow> npfloat \<Rightarrow> bool" where
  "in_range lo hi (Fin x) = (lo \<le> x \<and> x \<le> hi)"
| "in_range lo hi PosInf = False"
| "in_range lo hi NegInf = False"
| "in_range lo hi NaN = False"

datatype py_error =
    FileNotFoundError
  | DecodeError
  | ValueError
  | IsADirectoryError

section \<open>numpy\<close>

text \<open>\<^verbatim>\<open>np.arange(n)\<close>: the integers \<open>0, \<dots>, n - 1\<close>.\<close>

definition np_arange :: "nat \<Rightarrow> nat list" where
  "np_arange n = [0..<n]"

text \<open>
  \<^verbatim>\<open>np.min\<close> and \<^verbatim>\<open>np.max\<close> of a one-dimensional array raise ValueError on an
  empty array.
\<close>

fun np_min :: "real list \<Rightarrow> py_error + real" where
  "np_min [] = Inl ValueError"
| "np_min (x # xs) = Inr (fold min xs x)"

fun np_max :: "real list \<Rightarrow> py_error + real" where
  "np_max [] = Inl ValueError"
| "np_max (x # xs) = Inr (fold max xs x)"

text \<open>
  Lines 31 and 32: \<^verbatim>\<open>(v - np.min(v)) / (np.max(v) - np.min(v))\<close>, the same expression
  for the RMS and for the spectral centroid. The subtraction and the division are
  element-wise; nothing tests the divisor.
\<close>

definition min_max_normalize :: "real list \<Rightarrow> py_error + npfloat list" where
  "min_max_normalize v =
     (case np_min v of
        Inl e \<Rightarrow> Inl e
      | Inr lo \<Rightarrow>
          (case np_max v of
             Inl e \<Rightarrow> Inl e
           | Inr hi \<Rightarrow> Inr (map (\<lambda>x. np_div (x - lo) (hi - lo)) v)))"

section \<open>The library calls\<close>

text \<open>
  librosa and json are third-party libraries; their code is not part of the repository.
  The calls whose result is heavy signal processing are parameters of the model: a
  record of functions, one field per call the script makes.
  \<^item> \<open>load\<close>: \<^verbatim>\<open>librosa.load(path)\<close> on the content of the file, \<open>None\<close> when the
    file cannot be decoded; otherwise the mono samples and the sample rate;
  \<^item> \<open>feature_rms\<close>: \<^verbatim>\<open>librosa.feature.rms(y, frame_length, hop_length)[0]\<close>;
  \<^item> \<open>feature_spectral_centroid\<close>: \<^verbatim>\<open>librosa.feature.spectral_centroid(y, sr)[0]\<close>;
  \<^item> \<open>onset_detect\<close>: \<^verbatim>\<open>librosa.onset.onset_detect(y, sr, units='time')\<close>;
  \<^item> \<open>json_dump\<close>: the text \<^verbatim>\<open>json.dump(features, f, indent=2)\<close> writes.
  The analyzers return finite floats.
\<close>

datatype node = File string | Dir

record series =
  values' :: "npfloat list"
  times :: "npfloat list"

record features =
  duration :: npfloat
  sample_rate :: int
  rms :: series
  spectral_centroid :: series
  onsets :: "npfloat list"

record librosa =
  load :: "node \<Rightarrow> (real list \<times> nat) option"
  feature_rms :: "real list \<Rightarrow> nat \<Rightarrow> nat \<Rightarrow> real list"
  feature_spectral_centroid :: "real list \<Rightarrow> nat \<Rightarrow> real list"
  onset_detect :: "real list \<Rightarrow> nat \<Rightarrow> npfloat list"
  json_dump :: "features \<Rightarrow> string"

text \<open>
  Modelled from the spec: \<^verbatim>\<open>librosa.frames_to_time\<close> is library code; section 4.4
  gives the conversion, \<open>time = frame \<cdot> hop / sample_rate\<close>, a float division.
\<close>

definition frames_to_time :: "nat list \<Rightarrow> nat \<Rightarrow> nat \<Rightarrow> npfloat list" where
  "frames_to_time frames sr hop_length =
     map (\<lambda>f. np_div (real (f * hop_length)) (real sr)) frames"

text \<open>
  Modelled from the spec: \<^verbatim>\<open>librosa.get_duration\<close> is library code; section 4.4
  gives \<open>duration = buffer length / sample rate\<close>.
\<close>

definition get_duration :: "real list \<Rightarrow> nat \<Rightarrow> npfloat" where
  "get_duration y sr = np_div (real (length y)) (real sr)"

section \<open>The script\<close>

text \<open>The world the process runs in: the files by path, and what was printed.\<close>

datatype message =
    Usage
  | NotFound string
  | Saved string
  | Duration npfloat
  | RmsFrames nat
  | CentroidFrames nat
  | OnsetEvents nat

record world =
  files :: "string \<rightharpoonup> node"
  stdout :: "message list"

definition print :: "message list \<Rightarrow> world \<Rightarrow> world" where
  "print ms w = w\<lparr>stdout := stdout w @ ms\<rparr>"

text \<open>Lines 18 to 47: the feature record of a decoded buffer.\<close>

definition compute_features :: "librosa \<Rightarrow> real list \<Rightarrow> nat \<Rightarrow> py_error + features" where
  "compute_features L y sr =
     (let rms_seq = feature_rms L y 2048 512;
          centroid_seq = feature_spectral_centroid L y sr;
          onset_frames = onset_detect L y sr;
          time_axis = frames_to_time (np_arange (length rms_seq)) sr 512
      in case min_max_normalize rms_seq of
           Inl e \<Rightarrow> Inl e
         | Inr rms_normalized \<Rightarrow>
             (case min_max_normalize centroid_seq of
                Inl e \<Rightarrow> Inl e
              | Inr centroid_normalized \<Rightarrow>
                  Inr \<lparr>duration = get_duration y sr,
                       sample_rate = int sr,
                       rms = \<lparr>values' = rms_normalized, times = time_axis\<rparr>,
                       spectral_centroid = \<lparr>values' = centroid_normalized, times = time_axis\<rparr>,
                       onsets = onset_frames\<rparr>))"

text \<open>
  \<^verbatim>\<open>open(output_path, 'w')\<close> creates the file or truncates it; it raises when the path
  is a directory.
\<close>

definition open_w :: "world \<Rightarrow> string \<Rightarrow> py_error + world" where
  "open_w w p =
     (case files w p of
        Some Dir \<Rightarrow> Inl IsADirectoryError
      | _ \<Rightarrow> Inr (w\<lparr>files := (files w)(p \<mapsto> File [])\<rparr>))"

definition write_file :: "world \<Rightarrow> string \<Rightarrow> string \<Rightarrow> world" where
  "write_file w p s = w\<lparr>files := (files w)(p \<mapsto> File s)\<rparr>"

text \<open>
  Lines 7 to 57. An exception leaves the function at the call that raises it; every
  call that can raise comes before the output file is opened.
\<close>

definition extract_audio_features ::
  "librosa \<Rightarrow> string \<Rightarrow> string \<Rightarrow> world \<Rightarrow> py_error + world" where
  "extract_audio_features L audio_path output_path w =
     (case files w audio_path of
        None \<Rightarrow> Inl FileNotFoundError
      | Some nd \<Rightarrow>
          (case load L nd of
             None \<Rightarrow> Inl DecodeError
           | Some (y, sr) \<Rightarrow>
               (case compute_features L y sr of
                  Inl e \<Rightarrow> Inl e
                | Inr ft \<Rightarrow>
                    (case open_w w output_path of
                       Inl e \<Rightarrow> Inl e
                     | Inr w1 \<Rightarrow>
                         Inr (print
                               [Saved output_path,
                                Duration (duration ft),
                                RmsFrames (length (feature_rms L y 2048 512)),
                                CentroidFrames (length (feature_spectral_centroid L y sr)),
                                OnsetEvents (length (onset_detect L y sr))]
                               (write_file w1 output_path (json_dump L ft)))))))"

text \<open>
  Lines 59 to 71: the exit status and the world after the run. \<^verbatim>\<open>sys.exit(1)\<close> and an
  uncaught exception both end the process with status 1.
\<close>

definition main :: "librosa \<Rightarrow> string list \<Rightarrow> world \<Rightarrow> nat \<times> world" where
  "main L argv w =
     (if length argv \<noteq> 3 then (1, print [Usage] w)
      else
        let audio_path = argv ! 1; output_path = argv ! 2
        in if files w audio_path = None then (1, print [NotFound audio_path] w)
           else (case extract_audio_features L audio_path output_path w of
                   Inl e \<Rightarrow> (1, w)
                 | Inr w' \<Rightarrow> (0, w')))"

section \<open>A reference model of the analyzers\<close>

text \<open>
  Modelled from the spec: the Frame Analyzer of section 4.2
  (\<^verbatim>\<open>librosa.feature.rms\<close> and \<^verbatim>\<open>librosa.feature.spectral_centroid\<close> are library
  code). Frames of \<open>window\<close> samples advanced by \<open>hop\<close>, centred: the buffer is padded
  with \<open>window div 2\<close> zeros at both boundaries, and frame \<open>i\<close> is the window that
  starts at sample \<open>i \<cdot> hop\<close> of the padded buffer. A buffer too short for one window
  has no frame.
\<close>

definition pad_center :: "real list \<Rightarrow> nat \<Rightarrow> real list" where
  "pad_center y n = replicate (n div 2) 0 @ y @ replicate (n div 2) 0"

definition frame :: "real list \<Rightarrow> nat \<Rightarrow> nat \<Rightarrow> real list list" where
  "frame x frame_length hop_length =
     (if length x < frame_length \<or> hop_length = 0 then []
      else map (\<lambda>i. take frame_length (drop (i * hop_length) x))
             [0..<Suc ((length x - frame_length) div hop_length)])"

text \<open>Root-mean-square amplitude of a frame: \<open>sqrt (mean (sample\<^sup>2))\<close>.\<close>

definition rms_of_frame :: "real list \<Rightarrow> real" where
  "rms_of_frame f = sqrt (sum_list (map (\<lambda>s. s * s) f) / real (length f))"

definition ref_rms :: "real list \<Rightarrow> nat \<Rightarrow> nat \<Rightarrow> real list" where
  "ref_rms y frame_length hop_length =
     map rms_of_frame (frame (pad_center y frame_length) frame_length hop_length)"

text \<open>
  The centroid of a magnitude spectrum: the magnitude-weighted mean of the bin
  frequencies \<open>k \<cdot> sr / window\<close>, and 0 when the total magnitude is 0. The Fourier
  transform that gives the magnitudes of a frame is a parameter, \<open>spectrum\<close>.
\<close>

definition centroid_of :: "real list \<Rightarrow> nat \<Rightarrow> real" where
  "centroid_of mags sr =
     (if sum_list mags = 0 then 0
      else sum_list (map (\<lambda>(k, m). m * (real k * real sr / 2048)) (enumerate 0 mags))
           / sum_list mags)"

definition ref_spectral_centroid :: "(real list \<Rightarrow> real list) \<Rightarrow> real list \<Rightarrow> nat \<Rightarrow> real list" where
  "ref_spectral_centroid spectrum y sr =
     map (\<lambda>f. centroid_of (spectrum f) sr) (frame (pad_center y 2048) 2048 512)"

text \<open>
  Modelled from the spec: the Onset Detector of section 4.3
  (\<^verbatim>\<open>librosa.onset.onset_detect\<close> is library code). The onset strength has one value
  per frame: 0 for the first frame, then the spectral flux from the frame before, a
  parameter \<open>flux\<close>. A peak is a local maximum that reaches the threshold \<open>delta\<close>;
  peaks closer than \<open>wait\<close> frames to the peak kept before them are dropped; the frame
  indices that remain are converted to seconds on the hop grid.
\<close>

definition onset_strength :: "(real list \<Rightarrow> real list \<Rightarrow> real) \<Rightarrow> real list list \<Rightarrow> real list" where
  "onset_strength flux fs =
     (case fs of [] \<Rightarrow> [] | f # rest \<Rightarrow> 0 # map (\<lambda>(a, b). flux a b) (zip fs rest))"

definition is_peak :: "real list \<Rightarrow> real \<Rightarrow> nat \<Rightarrow> bool" where
  "is_peak s delta i =
     (delta \<le> s ! i
      \<and> (i = 0 \<or> s ! (i - 1) < s ! i)
      \<and> (Suc i = length s \<or> s ! Suc i \<le> s ! i))"

fun min_separation :: "nat \<Rightarrow> nat list \<Rightarrow> nat list" where
  "min_separation wait [] = []"
| "min_separation wait [i] = [i]"
| "min_separation wait (i # j # ks) =
     (if j \<le> i + wait then min_separation wait (i # ks)
      else i # min_separation wait (j # ks))"

definition peak_pick :: "real list \<Rightarrow> real \<Rightarrow> nat \<Rightarrow> nat list" where
  "peak_pick s delta wait = min_separation wait (filter (is_peak s delta) [0..<length s])"

definition ref_onset_detect ::
  "(real list \<Rightarrow> real list \<Rightarrow> real) \<Rightarrow> real \<Rightarrow> nat \<Rightarrow> real list \<Rightarrow> nat \<Rightarrow> npfloat list" where
  "ref_onset_detect flux delta wait y sr =
     frames_to_time
       (peak_pick (onset_strength flux (frame (pad_center y 2048) 2048 512)) delta wait)
       sr 512"

text \<open>The library whose analyzers are the reference model.\<close>

definition ref_librosa ::
  "(node \<Rightarrow> (real list \<times> nat) option) \<Rightarrow> (real list \<Rightarrow> real list) \<Rightarrow>
   (real list \<Rightarrow> real list \<Rightarrow> real) \<Rightarrow> real \<Rightarrow> nat \<Rightarrow> (features \<Rightarrow> string) \<Rightarrow> librosa" where
  "ref_librosa decode spectrum flux delta wait dump =
     \<lparr>load = decode,
      feature_rms = ref_rms,
      feature_spectral_centroid = ref_spectral_centroid spectrum,
      onset_detect = ref_onset_detect flux delta wait,
      json_dump = dump\<rparr>"

section \<open>A small library to run the script on\<close>

text \<open>
  Stand-ins for the parts the model leaves open, used to run the script on concrete
  inputs: a decoder that knows two recordings (1536 samples of amplitude 1, and 1024
  samples of silence, both at 22050 Hz), a two-bin stand-in for the magnitude spectrum,
  the rectified increase of the summed magnitude as the flux, threshold 1 and
  separation 1, and a serializer that writes each float as \<^verbatim>\<open>json.dump\<close> spells its
  kind (\<open>#\<close> for a finite number).
\<close>

fun show_float :: "npfloat \<Rightarrow> string" where
  "show_float (Fin x) = ''#''"
| "show_float PosInf = ''Infinity''"
| "show_float NegInf = ''-Infinity''"
| "show_float NaN = ''NaN''"

definition show_floats :: "npfloat list \<Rightarrow> string" where
  "show_floats xs = concat (map (\<lambda>x. show_float x @ '','') xs)"

definition demo_dump :: "features \<Rightarrow> string" where
  "demo_dump ft =
     show_float (duration ft) @ '';'' @
     show_floats (values' (rms ft)) @ '';'' @ show_floats (times (rms ft)) @ '';'' @
     show_floats (values' (spectral_centroid ft)) @ '';'' @
     show_floats (times (spectral_centroid ft)) @ '';'' @
     show_floats (onsets ft)"

definition demo_decode :: "node \<Rightarrow> (real list \<times> nat) option" where
  "demo_decode nd =
     (case nd of
        Dir \<Rightarrow> None
      | File s \<Rightarrow>
          if s = ''burst'' then Some (replicate 1536 1, 22050)
          else if s = ''silence'' then Some (replicate 1024 0, 22050)
          else None)"

definition demo_spectrum :: "real list \<Rightarrow> real list" where
  "demo_spectrum f = [sum_list (map abs (take 1024 f)), sum_list (map abs (drop 1024 f))]"

definition demo_flux :: "real list \<Rightarrow> real list \<Rightarrow> real" where
  "demo_flux a b = max 0 (sum_list (map abs b) - sum_list (map abs a))"

definition demo_librosa :: librosa where
  "demo_librosa = ref_librosa demo_decode demo_spectrum demo_flux 1 1 demo_dump"

definition demo_world :: world where
  "demo_world =
     \<lparr>files = [''burst.wav'' \<mapsto> File ''burst'', ''silence.wav'' \<mapsto> File ''silence'',
               ''notes.txt'' \<mapsto> File ''hello'', ''music'' \<mapsto> Dir],
      stdout = []\<rparr>"

section \<open>Lemmas on the model\<close>

lemma length_pad_center: "length (pad_center y n) = length y + 2 * (n div 2)"
  by (simp add: pad_center_def)

lemma length_frame:
  "length (frame x n h) = (if length x < n \<or> h = 0 then 0 else Suc ((length x - n) div h))"
  by (simp add: frame_def)

lemma length_centred_frames:
  "length (frame (pad_center y 2048) 2048 512) = length y div 512 + 1"
  by (simp add: length_frame length_pad_center)

lemma length_ref_rms: "length (ref_rms y 2048 512) = length y div 512 + 1"
  by (simp add: ref_rms_def length_centred_frames)

lemma length_ref_spectral_centroid:
  "length (ref_spectral_centroid spectrum y sr) = length y div 512 + 1"
  by (simp add: ref_spectral_centroid_def length_centred_frames)

lemma length_onset_strength: "length (onset_strength flux fs) = length fs"
  by (cases fs) (simp_all add: onset_strength_def)

lemma np_min_eq: "v \<noteq> [] \<Longrightarrow> np_min v = Inr (Min (set v))"
  by (cases v) (simp_all add: Min.set_eq_fold [symmetric])

lemma np_max_eq: "v \<noteq> [] \<Longrightarrow> np_max v = Inr (Max (set v))"
  by (cases v) (simp_all add: Max.set_eq_fold [symmetric])

lemma min_max_normalize_eq:
  "v \<noteq> [] \<Longrightarrow>
   min_max_normalize v =
     Inr (map (\<lambda>x. np_div (x - Min (set v)) (Max (set v) - Min (set v))) v)"
  by (simp add: min_max_normalize_def np_min_eq np_max_eq)

lemma min_max_normalize_empty: "min_max_normalize [] = Inl ValueError"
  by (simp add: min_max_normalize_def)

lemma min_max_normalize_length:
  "min_max_normalize v = Inr ns \<Longrightarrow> length ns = length v"
  by (cases "v = []") (auto simp: min_max_normalize_eq min_max_normalize_empty)

lemma compute_features_Inr:
  assumes "compute_features L y sr = Inr ft"
  obtains rn cn where
    "min_max_normalize (feature_rms L y 2048 512) = Inr rn"
    "min_max_normalize (feature_spectral_centroid L y sr) = Inr cn"
    "ft = \<lparr>duration = get_duration y sr,
           sample_rate = int sr,
           rms = \<lparr>values' = rn,
                  times = frames_to_time (np_arange (length (feature_rms L y 2048 512))) sr 512\<rparr>,
           spectral_centroid = \<lparr>values' = cn,
                  times = frames_to_time (np_arange (length (feature_rms L y 2048 512))) sr 512\<rparr>,
           onsets = onset_detect L y sr\<rparr>"
  using assms
  by (auto simp: compute_features_def Let_def split: sum.splits)

lemma set_min_separation: "set (min_separation w ks) \<subseteq> set ks"
  by (induction w ks rule: min_separation.induct) auto

lemma sorted_min_separation: "sorted ks \<Longrightarrow> sorted (min_separation w ks)"
  using set_min_separation
  by (induction w ks rule: min_separation.induct) (fastforce split: if_splits)+

lemma set_peak_pick: "k \<in> set (peak_pick s delta wait) \<Longrightarrow> k < length s"
  using set_min_separation [of wait "filter (is_peak s delta) [0..<length s]"]
  by (auto simp: peak_pick_def)

lemma sorted_peak_pick: "sorted (peak_pick s delta wait)"
  by (simp add: peak_pick_def sorted_min_separation sorted_wrt_filter)

lemma frames_to_time_Fin:
  "0 < sr \<Longrightarrow> frames_to_time ks sr h = map (\<lambda>k. Fin (real (k * h) / real sr)) ks"
  by (simp add: frames_to_time_def np_div_def)

subsection \<open>The script on the two recordings\<close>

lemma frames_burst:
  "frame (pad_center (replicate 1536 1) 2048) 2048 512 =
    [replicate 1024 0 @ replicate 1024 1,
     replicate 512 0 @ replicate 1536 1,
     replicate 1536 1 @ replicate 512 0,
     replicate 1024 1 @ replicate 1024 0]"
  by (simp add: frame_def pad_center_def upt_rec)

lemma frames_silence:
  "frame (pad_center (replicate 1024 0) 2048) 2048 512 =
    [replicate 2048 0, replicate 2048 0, replicate 2048 0]"
  by (simp add: frame_def pad_center_def upt_rec replicate_add [symmetric])

lemma demo_rms_burst:
  "feature_rms demo_librosa (replicate 1536 1) 2048 512 =
     [sqrt (1/2), sqrt (3/4), sqrt (3/4), sqrt (1/2)]"
  unfolding demo_librosa_def ref_librosa_def librosa.simps ref_rms_def frames_burst
  by (simp add: rms_of_frame_def sum_list_replicate)

lemma demo_rms_silence: "feature_rms demo_librosa (replicate 1024 0) 2048 512 = [0, 0, 0]"
  unfolding demo_librosa_def ref_librosa_def librosa.simps ref_rms_def frames_silence
  by (simp add: rms_of_frame_def sum_list_replicate)

lemma demo_centroid_burst:
  "feature_spectral_centroid demo_librosa (replicate 1536 1) 22050 =
     [11025 / 1024, 11025 / 1536, 11025 / 3072, 0]"
  unfolding demo_librosa_def ref_librosa_def librosa.simps ref_spectral_centroid_def frames_burst
  by (simp add: demo_spectrum_def centroid_of_def sum_list_replicate enumerate_eq_zip upt_rec)

lemma demo_centroid_silence:
  "feature_spectral_centroid demo_librosa (replicate 1024 0) 22050 = [0, 0, 0]"
  unfolding demo_librosa_def ref_librosa_def librosa.simps ref_spectral_centroid_def frames_silence
  by (simp add: demo_spectrum_def centroid_of_def sum_list_replicate)

lemma strength_burst:
  "onset_strength demo_flux (frame (pad_center (replicate 1536 1) 2048) 2048 512) = [0, 512, 0, 0]"
  unfolding frames_burst
  by (simp add: onset_strength_def demo_flux_def sum_list_replicate)

lemma strength_silence:
  "onset_strength demo_flux (frame (pad_center (replicate 1024 0) 2048) 2048 512) = [0, 0, 0]"
  unfolding frames_silence
  by (simp add: onset_strength_def demo_flux_def sum_list_replicate)

lemma demo_onsets_burst:
  "onset_detect demo_librosa (replicate 1536 1) 22050 = [Fin (512 / 22050)]"
  unfolding demo_librosa_def ref_librosa_def librosa.simps ref_onset_detect_def strength_burst
  by (simp add: peak_pick_def is_peak_def upt_rec frames_to_time_def np_div_def)

lemma demo_onsets_silence:
  "onset_detect demo_librosa (replicate 1024 0) 22050 = []"
  unfolding demo_librosa_def ref_librosa_def librosa.simps ref_onset_detect_def strength_silence
  by (simp add: peak_pick_def is_peak_def upt_rec frames_to_time_def np_div_def)

lemma features_burst:
  "compute_features demo_librosa (replicate 1536 1) 22050 =
     Inr \<lparr>duration = Fin (1536 / 22050),
          sample_rate = 22050,
          rms = \<lparr>values' = [Fin 0, Fin 1, Fin 1, Fin 0],
                 times = [Fin 0, Fin (512 / 22050), Fin (1024 / 22050), Fin (1536 / 22050)]\<rparr>,
          spectral_centroid = \<lparr>values' = [Fin 1, Fin (2 / 3), Fin (1 / 3), Fin 0],
                 times = [Fin 0, Fin (512 / 22050), Fin (1024 / 22050), Fin (1536 / 22050)]\<rparr>,
          onsets = [Fin (512 / 22050)]\<rparr>"
  by (simp add: compute_features_def Let_def demo_rms_burst demo_centroid_burst
      demo_onsets_burst min_max_normalize_def np_div_def frames_to_time_def np_arange_def
      get_duration_def upt_rec)

lemma features_silence:
  "compute_features demo_librosa (replicate 1024 0) 22050 =
     Inr \<lparr>duration = Fin (1024 / 22050),
          sample_rate = 22050,
          rms = \<lparr>values' = [NaN, NaN, NaN],
                 times = [Fin 0, Fin (512 / 22050), Fin (1024 / 22050)]\<rparr>,
          spectral_centroid = \<lparr>values' = [NaN, NaN, NaN],
                 times = [Fin 0, Fin (512 / 22050), Fin (1024 / 22050)]\<rparr>,
          onsets = []\<rparr>"
  by (simp add: compute_features_def Let_def demo_rms_silence demo_centroid_silence
      demo_onsets_silence min_max_normalize_def np_div_def frames_to_time_def np_arange_def
      get_duration_def upt_rec)

section \<open>Properties of the script\<close>

lemma normalize_degenerate:
  assumes "v \<noteq> []" "np_max v = np_min v"
  shows "min_max_normalize v = Inr (replicate (length v) NaN)"
proof -
  have eq: "Max (set v) = Min (set v)"
    using assms by (simp add: np_min_eq np_max_eq)
  have "x = Min (set v)" if "x \<in> set v" for x
  proof (rule antisym)
    show "x \<le> Min (set v)" by (metis eq Max_ge finite_set that)
    show "Min (set v) \<le> x" by (metis Min_le finite_set that)
  qed
  then have "map (\<lambda>x. np_div (x - Min (set v)) (Max (set v) - Min (set v))) v
      = map (\<lambda>x. NaN) v"
    using eq by (intro map_cong) (simp_all add: np_div_def)
  then show ?thesis
    using assms(1) by (simp add: min_max_normalize_eq map_replicate_const)
qed

lemma normalize_range:
  assumes "v \<noteq> []" "np_max v \<noteq> np_min v" "min_max_normalize v = Inr ns"
  shows "list_all (in_range 0 1) ns"
proof -
  have ne: "Max (set v) \<noteq> Min (set v)"
    using assms by (simp add: np_min_eq np_max_eq)
  have le: "Min (set v) \<le> Max (set v)"
    using assms(1) by (simp add: Min_le_iff)
  have lt: "Min (set v) < Max (set v)" using ne le by simp
  have "in_range 0 1 (np_div (x - Min (set v)) (Max (set v) - Min (set v)))"
    if "x \<in> set v" for x
    using that lt Min_le [of "set v" x] Max_ge [of "set v" x]
    by (simp add: np_div_def)
  then show ?thesis
    using assms(1,3) by (auto simp: min_max_normalize_eq list_all_iff)
qed

lemma in_range_finite: "in_range lo hi x \<Longrightarrow> is_finite x"
  by (cases x) simp_all

lemma demo_fields:
  "load demo_librosa = demo_decode" "json_dump demo_librosa = demo_dump"
  by (simp_all add: demo_librosa_def ref_librosa_def)

lemma extract_audio_features_Inr:
  assumes "extract_audio_features L a out w = Inr w'"
  obtains nd y sr ft where
    "files w a = Some nd" "load L nd = Some (y, sr)" "compute_features L y sr = Inr ft"
    "files w out \<noteq> Some Dir"
    "files w' = (files w)(out \<mapsto> File (json_dump L ft))"
  using assms
  by (auto simp: extract_audio_features_def open_w_def write_file_def print_def
      split: option.splits sum.splits node.splits)

lemma main_usage:
  "length argv \<noteq> 3 \<Longrightarrow> main L argv w = (1, print [Usage] w)"
  by (simp add: main_def)

lemma main_not_found:
  "length argv = 3 \<Longrightarrow> files w (argv ! 1) = None \<Longrightarrow>
   main L argv w = (1, print [NotFound (argv ! 1)] w)"
  by (simp add: main_def Let_def)

lemma main_decode_error:
  "length argv = 3 \<Longrightarrow> files w (argv ! 1) = Some nd \<Longrightarrow> load L nd = None \<Longrightarrow>
   main L argv w = (1, w)"
  by (simp add: main_def Let_def extract_audio_features_def)

lemma main_failure:
  "fst (main L argv w) \<noteq> 0 \<Longrightarrow>
   fst (main L argv w) = 1 \<and> files (snd (main L argv w)) = files w"
  by (auto simp: main_def Let_def print_def split: if_splits sum.splits)

lemma main_success_iff:
  "fst (main L argv w) = 0 \<longleftrightarrow>
   length argv = 3 \<and> (\<exists>w'. extract_audio_features L (argv ! 1) (argv ! 2) w = Inr w')"
  by (auto simp: main_def Let_def extract_audio_features_def split: sum.splits)

lemma main_success:
  assumes "main L argv w = (0, w')"
  shows "length argv = 3" "extract_audio_features L (argv ! 1) (argv ! 2) w = Inr w'"
  using assms
  by (auto simp: main_def Let_def split: if_splits sum.splits)

text \<open>
  Claim C9. A wrong argument count and a missing input path end the process with status
  1; so does a file that cannot be decoded; whenever the status is not 0 it is 1 and no
  file has been created or changed. The status is 0 exactly when the extraction
  returns, and then the output file holds the whole serialized record.
\<close>

theorem exit_status_and_output_file:
  "(length argv \<noteq> 3 \<longrightarrow>
      fst (main L argv w) = 1 \<and> files (snd (main L argv w)) = files w)
   \<and> (length argv = 3 \<and> files w (argv ! 1) = None \<longrightarrow>
      fst (main L argv w) = 1 \<and> files (snd (main L argv w)) = files w)
   \<and> (length argv = 3 \<and> (\<exists>nd. files w (argv ! 1) = Some nd \<and> load L nd = None) \<longrightarrow>
      fst (main L argv w) = 1 \<and> files (snd (main L argv w)) = files w)
   \<and> (fst (main L argv w) \<noteq> 0 \<longrightarrow>
      fst (main L argv w) = 1 \<and> files (snd (main L argv w)) = files w)
   \<and> (fst (main L argv w) = 0 \<longleftrightarrow>
      length argv = 3 \<and> (\<exists>w'. extract_audio_features L (argv ! 1) (argv ! 2) w = Inr w'))
   \<and> (fst (main L argv w) = 0 \<longrightarrow>
      (\<exists>ft. files (snd (main L argv w)) (argv ! 2) = Some (File (json_dump L ft))))"
proof (intro conjI impI)
  assume "length argv \<noteq> 3"
  then show "fst (main L argv w) = 1" "files (snd (main L argv w)) = files w"
    by (simp_all add: main_usage print_def)
next
  assume "length argv = 3 \<and> files w (argv ! 1) = None"
  then show "fst (main L argv w) = 1" "files (snd (main L argv w)) = files w"
    by (simp_all add: main_not_found print_def)
next
  assume "length argv = 3 \<and> (\<exists>nd. files w (argv ! 1) = Some nd \<and> load L nd = None)"
  then show "fst (main L argv w) = 1" "files (snd (main L argv w)) = files w"
    by (auto simp: main_decode_error)
next
  assume "fst (main L argv w) \<noteq> 0"
  then show "fst (main L argv w) = 1" "files (snd (main L argv w)) = files w"
    using main_failure by blast+
next
  show "fst (main L argv w) = 0 \<longleftrightarrow>
    length argv = 3 \<and> (\<exists>w'. extract_audio_features L (argv ! 1) (argv ! 2) w = Inr w')"
    by (rule main_success_iff)
next
  assume "fst (main L argv w) = 0"
  then have "main L argv w = (0, snd (main L argv w))"
    by (simp add: prod_eq_iff)
  from main_success(2) [OF this]
  show "\<exists>ft. files (snd (main L argv w)) (argv ! 2) = Some (File (json_dump L ft))"
    by (elim extract_audio_features_Inr) auto
qed

text \<open>
  Claim C7. The pipeline is deterministic: two successful runs on the same content of
  the input file write the same bytes, whatever else differs between the two runs (the
  other files, the former content of the output file, what was printed before, the
  name of the script, the output path). The library calls are functions of their
  arguments in the model, as they are in librosa.
\<close>

theorem same_input_same_output:
  assumes "files w1 inp = files w2 inp"
    and "main L [prog1, inp, out1] w1 = (0, w1')"
    and "main L [prog2, inp, out2] w2 = (0, w2')"
  shows "files w1' out1 = files w2' out2"
proof -
  from main_success(2) [OF assms(2)]
  have e1: "extract_audio_features L inp out1 w1 = Inr w1'" by simp
  from main_success(2) [OF assms(3)]
  have e2: "extract_audio_features L inp out2 w2 = Inr w2'" by simp
  from e1 obtain nd y sr ft where 1:
    "files w1 inp = Some nd" "load L nd = Some (y, sr)" "compute_features L y sr = Inr ft"
    "files w1' = (files w1)(out1 \<mapsto> File (json_dump L ft))"
    by (elim extract_audio_features_Inr)
  from e2 obtain nd' y' sr' ft' where 2:
    "files w2 inp = Some nd'" "load L nd' = Some (y', sr')" "compute_features L y' sr' = Inr ft'"
    "files w2' = (files w2)(out2 \<mapsto> File (json_dump L ft'))"
    by (elim extract_audio_features_Inr)
  from 1 2 assms(1) have "ft = ft'" by simp
  with 1(4) 2(4) show ?thesis by simp
qed

lemma run_burst:
  assumes "files w ''burst.wav'' = Some (File ''burst'')" "files w out \<noteq> Some Dir"
  shows "main demo_librosa [prog, ''burst.wav'', out] w =
     (0, \<lparr>files = (files w)(out \<mapsto> File ''#;#,#,#,#,;#,#,#,#,;#,#,#,#,;#,#,#,#,;#,''),
          stdout = stdout w @ [Saved out, Duration (Fin (1536 / 22050)), RmsFrames 4,
                    CentroidFrames 4, OnsetEvents 1]\<rparr>)"
  using assms
  by (simp add: main_def Let_def extract_audio_features_def features_burst
      demo_fields demo_decode_def demo_rms_burst demo_centroid_burst demo_onsets_burst
      open_w_def write_file_def print_def demo_dump_def show_floats_def
      split: option.splits node.splits)

lemma run_silence:
  assumes "files w ''silence.wav'' = Some (File ''silence'')" "files w out \<noteq> Some Dir"
  shows "main demo_librosa [prog, ''silence.wav'', out] w =
     (0, \<lparr>files = (files w)(out \<mapsto> File ''#;NaN,NaN,NaN,;#,#,#,;NaN,NaN,NaN,;#,#,#,;''),
          stdout = stdout w @ [Saved out, Duration (Fin (1024 / 22050)), RmsFrames 3,
                    CentroidFrames 3, OnsetEvents 0]\<rparr>)"
  using assms
  by (simp add: main_def Let_def extract_audio_features_def features_silence
      demo_fields demo_decode_def demo_rms_silence demo_centroid_silence demo_onsets_silence
      open_w_def write_file_def print_def demo_dump_def show_floats_def
      split: option.splits node.splits)

lemma demo_world_files:
  "files demo_world ''burst.wav'' = Some (File ''burst'')"
  "files demo_world ''silence.wav'' = Some (File ''silence'')"
  "files demo_world ''notes.txt'' = Some (File ''hello'')"
  "files demo_world ''music'' = Some Dir"
  "files demo_world ''missing.wav'' = None"
  "files demo_world ''out.json'' = None"
  "files demo_world ''again.json'' = None"
  by (simp_all add: demo_world_def)

text \<open>Claim C9 on the demo world: each failure and one success.\<close>

theorem exit_status_and_output_file_witness:
  "fst (main demo_librosa [''extract_audio_features.py''] demo_world) = 1
   \<and> files (snd (main demo_librosa [''extract_audio_features.py''] demo_world)) = files demo_world
   \<and> fst (main demo_librosa [''extract_audio_features.py'', ''missing.wav'', ''out.json''] demo_world) = 1
   \<and> files (snd (main demo_librosa [''extract_audio_features.py'', ''missing.wav'', ''out.json''] demo_world)) = files demo_world
   \<and> fst (main demo_librosa [''extract_audio_features.py'', ''notes.txt'', ''out.json''] demo_world) = 1
   \<and> files (snd (main demo_librosa [''extract_audio_features.py'', ''notes.txt'', ''out.json''] demo_world)) = files demo_world
   \<and> fst (main demo_librosa [''extract_audio_features.py'', ''burst.wav'', ''music''] demo_world) = 1
   \<and> files (snd (main demo_librosa [''extract_audio_features.py'', ''burst.wav'', ''music''] demo_world)) = files demo_world
   \<and> fst (main demo_librosa [''extract_audio_features.py'', ''burst.wav'', ''out.json''] demo_world) = 0
   \<and> (\<exists>ft. files (snd (main demo_librosa [''extract_audio_features.py'', ''burst.wav'', ''out.json''] demo_world)) ''out.json''
         = Some (File (json_dump demo_librosa ft)))"
proof -
  note T = exit_status_and_output_file [where L = demo_librosa and w = demo_world]
  have usage: "fst (main demo_librosa [''extract_audio_features.py''] demo_world) = 1
    \<and> files (snd (main demo_librosa [''extract_audio_features.py''] demo_world)) = files demo_world"
    using T [where argv = "[''extract_audio_features.py'']", THEN conjunct1] by simp
  have missing:
    "fst (main demo_librosa [''extract_audio_features.py'', ''missing.wav'', ''out.json''] demo_world) = 1
     \<and> files (snd (main demo_librosa [''extract_audio_features.py'', ''missing.wav'', ''out.json''] demo_world)) = files demo_world"
    using T [where argv = "[''extract_audio_features.py'', ''missing.wav'', ''out.json'']",
        THEN conjunct2, THEN conjunct1]
    by (simp add: demo_world_files)
  have undecodable:
    "fst (main demo_librosa [''extract_audio_features.py'', ''notes.txt'', ''out.json''] demo_world) = 1
     \<and> files (snd (main demo_librosa [''extract_audio_features.py'', ''notes.txt'', ''out.json''] demo_world)) = files demo_world"
    using T [where argv = "[''extract_audio_features.py'', ''notes.txt'', ''out.json'']",
        THEN conjunct2, THEN conjunct2, THEN conjunct1]
    by (simp add: demo_world_files demo_fields demo_decode_def)
  have "fst (main demo_librosa [''extract_audio_features.py'', ''burst.wav'', ''music''] demo_world) \<noteq> 0"
    by (simp add: main_def Let_def extract_audio_features_def demo_world_files demo_fields
        demo_decode_def features_burst open_w_def)
  then have directory:
    "fst (main demo_librosa [''extract_audio_features.py'', ''burst.wav'', ''music''] demo_world) = 1
     \<and> files (snd (main demo_librosa [''extract_audio_features.py'', ''burst.wav'', ''music''] demo_world)) = files demo_world"
    using T [where argv = "[''extract_audio_features.py'', ''burst.wav'', ''music'']",
        THEN conjunct2, THEN conjunct2, THEN conjunct2, THEN conjunct1]
    by blast
  have ok: "fst (main demo_librosa [''extract_audio_features.py'', ''burst.wav'', ''out.json''] demo_world) = 0"
    by (simp add: run_burst demo_world_files)
  then have written: "\<exists>ft. files (snd (main demo_librosa [''extract_audio_features.py'', ''burst.wav'', ''out.json''] demo_world)) ''out.json''
         = Some (File (json_dump demo_librosa ft))"
    using T [where argv = "[''extract_audio_features.py'', ''burst.wav'', ''out.json'']",
        THEN conjunct2, THEN conjunct2, THEN conjunct2, THEN conjunct2, THEN conjunct2]
    by simp
  from usage missing undecodable directory ok written show ?thesis by blast
qed

text \<open>Claim C7 on the demo world: the script run twice in succession.\<close>

theorem same_input_same_output_witness:
  "main demo_librosa [''extract_audio_features.py'', ''burst.wav'', ''out.json''] demo_world =
     (0, \<lparr>files = (files demo_world)(''out.json'' \<mapsto> File ''#;#,#,#,#,;#,#,#,#,;#,#,#,#,;#,#,#,#,;#,''),
          stdout = [Saved ''out.json'', Duration (Fin (1536 / 22050)), RmsFrames 4,
                    CentroidFrames 4, OnsetEvents 1]\<rparr>)
   \<and> fst (main demo_librosa [''python'', ''burst.wav'', ''again.json'']
        \<lparr>files = (files demo_world)(''out.json'' \<mapsto> File ''#;#,#,#,#,;#,#,#,#,;#,#,#,#,;#,#,#,#,;#,''),
          stdout = [Saved ''out.json'', Duration (Fin (1536 / 22050)), RmsFrames 4,
                    CentroidFrames 4, OnsetEvents 1]\<rparr>) = 0
   \<and> files (snd (main demo_librosa [''python'', ''burst.wav'', ''again.json'']
        \<lparr>files = (files demo_world)(''out.json'' \<mapsto> File ''#;#,#,#,#,;#,#,#,#,;#,#,#,#,;#,#,#,#,;#,''),
          stdout = [Saved ''out.json'', Duration (Fin (1536 / 22050)), RmsFrames 4,
                    CentroidFrames 4, OnsetEvents 1]\<rparr>)) ''again.json''
       = Some (File ''#;#,#,#,#,;#,#,#,#,;#,#,#,#,;#,#,#,#,;#,'')"
proof -
  let ?w1 = "\<lparr>files = (files demo_world)(''out.json'' \<mapsto> File ''#;#,#,#,#,;#,#,#,#,;#,#,#,#,;#,#,#,#,;#,''),
          stdout = [Saved ''out.json'', Duration (Fin (1536 / 22050)), RmsFrames 4,
                    CentroidFrames 4, OnsetEvents 1]\<rparr>"
  have first: "main demo_librosa [''extract_audio_features.py'', ''burst.wav'', ''out.json''] demo_world = (0, ?w1)"
    by (simp add: run_burst demo_world_files) (simp add: demo_world_def)
  have second: "fst (main demo_librosa [''python'', ''burst.wav'', ''again.json''] ?w1) = 0"
    by (simp add: run_burst demo_world_files)
  then have second': "main demo_librosa [''python'', ''burst.wav'', ''again.json''] ?w1
      = (0, snd (main demo_librosa [''python'', ''burst.wav'', ''again.json''] ?w1))"
    by (simp add: prod_eq_iff)
  have "files ?w1 ''burst.wav'' = files demo_world ''burst.wav''" by simp
  from same_input_same_output [OF this second' first]
  have "files (snd (main demo_librosa [''python'', ''burst.wav'', ''again.json''] ?w1)) ''again.json''
      = files ?w1 ''out.json''" .
  with first second show ?thesis by simp
qed

subsection \<open>The record\<close>

lemma length_frames_to_time: "length (frames_to_time fs sr h) = length fs"
  by (simp add: frames_to_time_def)

text \<open>
  Claim C4. In the record of every buffer the two time sequences are the same list: the
  script computes one time axis and stores it under both features.
\<close>

theorem time_axis_shared:
  assumes "compute_features L y sr = Inr ft"
  shows "times (rms ft) = times (spectral_centroid ft)"
  using assms by (elim compute_features_Inr) simp

text \<open>Claim C4 on the burst recording.\<close>

theorem time_axis_shared_witness:
  "(\<exists>ft. compute_features demo_librosa (replicate 1536 1) 22050 = Inr ft
      \<and> times (rms ft) = [Fin 0, Fin (512 / 22050), Fin (1024 / 22050), Fin (1536 / 22050)]
      \<and> times (spectral_centroid ft) = times (rms ft))"
  using time_axis_shared [OF features_burst] features_burst by simp

text \<open>
  Claim C3. When the two analyzers return sequences of the same length for the buffer
  (the contract of the Frame Analyzer, which librosa meets by its shared window and
  hop), the four sequences of the record have the same length, the number of frames.
\<close>

theorem four_sequences_same_length:
  assumes "compute_features L y sr = Inr ft"
    and "length (feature_spectral_centroid L y sr) = length (feature_rms L y 2048 512)"
  shows "length (values' (rms ft)) = length (feature_rms L y 2048 512)
     \<and> length (times (rms ft)) = length (feature_rms L y 2048 512)
     \<and> length (values' (spectral_centroid ft)) = length (feature_rms L y 2048 512)
     \<and> length (times (spectral_centroid ft)) = length (feature_rms L y 2048 512)"
  using assms
  by (elim compute_features_Inr)
     (simp add: min_max_normalize_length length_frames_to_time np_arange_def)

text \<open>Claim C3 on the burst recording: four frames, four values in each sequence.\<close>

theorem four_sequences_same_length_witness:
  "(\<exists>ft. compute_features demo_librosa (replicate 1536 1) 22050 = Inr ft
      \<and> length (feature_spectral_centroid demo_librosa (replicate 1536 1) 22050) = 4
      \<and> length (feature_rms demo_librosa (replicate 1536 1) 2048 512) = 4
      \<and> length (values' (rms ft)) = 4
      \<and> length (times (rms ft)) = 4
      \<and> length (values' (spectral_centroid ft)) = 4
      \<and> length (times (spectral_centroid ft)) = 4)"
proof -
  have "length (feature_spectral_centroid demo_librosa (replicate 1536 1) 22050)
      = length (feature_rms demo_librosa (replicate 1536 1) 2048 512)"
    by (simp add: demo_centroid_burst demo_rms_burst)
  from four_sequences_same_length [OF features_burst this] show ?thesis
    by (simp add: demo_centroid_burst demo_rms_burst features_burst)
qed

text \<open>
  Claim C8. The time axis has one entry per frame of the RMS sequence, and for a
  positive sample rate entry \<open>i\<close> is \<open>i \<cdot> 512 / sample_rate\<close>.
\<close>

theorem time_axis_grid:
  assumes "compute_features L y sr = Inr ft" and "0 < sr"
  shows "length (times (rms ft)) = length (feature_rms L y 2048 512)
     \<and> (\<forall>i < length (times (rms ft)). times (rms ft) ! i = Fin (real (i * 512) / real sr))"
  using assms
  by (elim compute_features_Inr) (simp add: frames_to_time_Fin np_arange_def)

text \<open>Claim C8 on the burst recording.\<close>

theorem time_axis_grid_witness:
  "(\<exists>ft. compute_features demo_librosa (replicate 1536 1) 22050 = Inr ft
      \<and> length (times (rms ft)) = 4
      \<and> times (rms ft) ! 3 = Fin (real (3 * 512) / real 22050))"
proof -
  have "(0::nat) < 22050" by simp
  from time_axis_grid [OF features_burst this]
  have "\<forall>i < 4. times (rms
      \<lparr>duration = Fin (1536 / 22050), sample_rate = 22050,
       rms = \<lparr>values' = [Fin 0, Fin 1, Fin 1, Fin 0],
              times = [Fin 0, Fin (512 / 22050), Fin (1024 / 22050), Fin (1536 / 22050)]\<rparr>,
       spectral_centroid = \<lparr>values' = [Fin 1, Fin (2 / 3), Fin (1 / 3), Fin 0],
              times = [Fin 0, Fin (512 / 22050), Fin (1024 / 22050), Fin (1536 / 22050)]\<rparr>,
       onsets = [Fin (512 / 22050)]\<rparr>) ! i = Fin (real (i * 512) / real 22050)"
    by simp
  then show ?thesis
    by (simp add: features_burst)
qed

subsection \<open>Normalization\<close>

lemma min_max_normalize_Inr_nonempty: "min_max_normalize v = Inr ns \<Longrightarrow> v \<noteq> []"
  by (cases v) (simp_all add: min_max_normalize_def)

lemma normalize_cases:
  assumes "min_max_normalize v = Inr ns"
  shows "if np_max v = np_min v then ns = replicate (length v) NaN
         else list_all (in_range 0 1) ns"
proof (cases "np_max v = np_min v")
  case True
  with normalize_degenerate [OF min_max_normalize_Inr_nonempty [OF assms] True] assms
  show ?thesis by simp
next
  case False
  with normalize_range [OF min_max_normalize_Inr_nonempty [OF assms] False assms]
  show ?thesis by simp
qed

text \<open>
  Claim C5, as the code has it. A sequence that is not constant is normalized into the
  interval from 0 to 1. A constant sequence (silence, for one) gets no fallback value:
  the formula divides 0 by 0 at every frame and every normalized value is NaN.
\<close>

theorem normalized_values_range:
  assumes "compute_features L y sr = Inr ft"
  shows "(if np_max (feature_rms L y 2048 512) = np_min (feature_rms L y 2048 512)
          then values' (rms ft) = replicate (length (feature_rms L y 2048 512)) NaN
          else list_all (in_range 0 1) (values' (rms ft)))
       \<and> (if np_max (feature_spectral_centroid L y sr) = np_min (feature_spectral_centroid L y sr)
          then values' (spectral_centroid ft)
                 = replicate (length (feature_spectral_centroid L y sr)) NaN
          else list_all (in_range 0 1) (values' (spectral_centroid ft)))"
  using assms
  by (elim compute_features_Inr) (simp add: normalize_cases)

text \<open>Claim C5 on the burst recording, whose sequences are not constant.\<close>

theorem normalized_values_range_witness:
  "(\<exists>ft. compute_features demo_librosa (replicate 1536 1) 22050 = Inr ft
      \<and> values' (rms ft) = [Fin 0, Fin 1, Fin 1, Fin 0]
      \<and> list_all (in_range 0 1) (values' (rms ft))
      \<and> values' (spectral_centroid ft) = [Fin 1, Fin (2 / 3), Fin (1 / 3), Fin 0]
      \<and> list_all (in_range 0 1) (values' (spectral_centroid ft)))"
  using normalized_values_range [OF features_burst] features_burst
  by (simp add: demo_rms_burst demo_centroid_burst)

text \<open>
  Claim C5 as stated fails: three frames of silence have RMS 0, 0, 0, and their
  normalized values are NaN, not a fallback constant.
\<close>

theorem silent_sequence_counterexample:
  "min_max_normalize [0, 0, 0] = Inr [NaN, NaN, NaN]"
  by (simp add: min_max_normalize_def np_div_def)

text \<open>
  Claim C1, as the code has it. A run that returns has written the serialization of the
  record it computed, and in that record a feature whose sequence has equal maximum and
  minimum holds NaN at every frame: the division by zero is not guarded, no fallback
  sequence is produced, and the values that reach the serializer are not finite.
\<close>

theorem degenerate_sequence_serialized:
  assumes "extract_audio_features L audio_path output_path w = Inr w'"
  shows "\<exists>nd y sr ft.
      files w audio_path = Some nd \<and> load L nd = Some (y, sr)
    \<and> compute_features L y sr = Inr ft
    \<and> files w' output_path = Some (File (json_dump L ft))
    \<and> (np_max (feature_rms L y 2048 512) = np_min (feature_rms L y 2048 512) \<longrightarrow>
         values' (rms ft) = replicate (length (feature_rms L y 2048 512)) NaN
         \<and> \<not> list_ex is_finite (values' (rms ft)))
    \<and> (np_max (feature_spectral_centroid L y sr) = np_min (feature_spectral_centroid L y sr) \<longrightarrow>
         values' (spectral_centroid ft)
           = replicate (length (feature_spectral_centroid L y sr)) NaN
         \<and> \<not> list_ex is_finite (values' (spectral_centroid ft)))"
proof -
  from assms obtain nd y sr ft where *:
    "files w audio_path = Some nd" "load L nd = Some (y, sr)"
    "compute_features L y sr = Inr ft"
    "files w' = (files w)(output_path \<mapsto> File (json_dump L ft))"
    by (elim extract_audio_features_Inr)
  from *(3) obtain rn cn where n:
    "min_max_normalize (feature_rms L y 2048 512) = Inr rn"
    "min_max_normalize (feature_spectral_centroid L y sr) = Inr cn"
    "values' (rms ft) = rn" "values' (spectral_centroid ft) = cn"
    by (elim compute_features_Inr) simp
  have nan: "\<not> list_ex is_finite (replicate k NaN)" for k
    by (simp add: list_ex_iff)
  have out: "files w' output_path = Some (File (json_dump L ft))"
    using *(4) by simp
  from normalize_cases [OF n(1)] normalize_cases [OF n(2)] n(3,4) nan
  have "(np_max (feature_rms L y 2048 512) = np_min (feature_rms L y 2048 512) \<longrightarrow>
         values' (rms ft) = replicate (length (feature_rms L y 2048 512)) NaN
         \<and> \<not> list_ex is_finite (values' (rms ft)))
    \<and> (np_max (feature_spectral_centroid L y sr) = np_min (feature_spectral_centroid L y sr) \<longrightarrow>
         values' (spectral_centroid ft)
           = replicate (length (feature_spectral_centroid L y sr)) NaN
         \<and> \<not> list_ex is_finite (values' (spectral_centroid ft)))"
    by (simp split: if_splits)
  with *(1-3) out show ?thesis by blast
qed

text \<open>Claim C1 on the silent recording: the run returns, and the record it wrote holds NaN.\<close>

theorem degenerate_sequence_serialized_witness:
  "(\<exists>w' ft.
      extract_audio_features demo_librosa ''silence.wav'' ''out.json'' demo_world = Inr w'
    \<and> compute_features demo_librosa (replicate 1024 0) 22050 = Inr ft
    \<and> files w' ''out.json'' = Some (File (json_dump demo_librosa ft))
    \<and> values' (rms ft) = [NaN, NaN, NaN]
    \<and> values' (spectral_centroid ft) = [NaN, NaN, NaN])"
proof -
  have "main demo_librosa [''extract_audio_features.py'', ''silence.wav'', ''out.json''] demo_world
      = (0, snd (main demo_librosa [''extract_audio_features.py'', ''silence.wav'', ''out.json''] demo_world))"
    by (simp add: run_silence demo_world_files)
  from main_success(2) [OF this] obtain w' where
    run: "extract_audio_features demo_librosa ''silence.wav'' ''out.json'' demo_world = Inr w'"
    by simp
  from degenerate_sequence_serialized [OF run] obtain nd y sr ft where *:
    "files demo_world ''silence.wav'' = Some nd" "load demo_librosa nd = Some (y, sr)"
    "compute_features demo_librosa y sr = Inr ft"
    "files w' ''out.json'' = Some (File (json_dump demo_librosa ft))"
    "np_max (feature_rms demo_librosa y 2048 512) = np_min (feature_rms demo_librosa y 2048 512) \<longrightarrow>
       values' (rms ft) = replicate (length (feature_rms demo_librosa y 2048 512)) NaN
       \<and> \<not> list_ex is_finite (values' (rms ft))"
    "np_max (feature_spectral_centroid demo_librosa y sr)
       = np_min (feature_spectral_centroid demo_librosa y sr) \<longrightarrow>
       values' (spectral_centroid ft)
         = replicate (length (feature_spectral_centroid demo_librosa y sr)) NaN
       \<and> \<not> list_ex is_finite (values' (spectral_centroid ft))"
    by blast
  from *(1,2) have y: "y = replicate 1024 0" "sr = 22050"
    by (auto simp: demo_world_files demo_fields demo_decode_def)
  from *(5,6) have "values' (rms ft) = [NaN, NaN, NaN]"
      "values' (spectral_centroid ft) = [NaN, NaN, NaN]"
    unfolding y by (simp_all add: demo_rms_silence demo_centroid_silence)
  with run *(3,4) show ?thesis unfolding y by blast
qed

text \<open>
  Claim C1 as stated fails on a recording of 1024 silent samples: the record holds
  NaN for both features, and the run ends with status 0 after writing them.
\<close>

theorem silent_recording_counterexample:
  "compute_features demo_librosa (replicate 1024 0) 22050 =
     Inr \<lparr>duration = Fin (1024 / 22050),
          sample_rate = 22050,
          rms = \<lparr>values' = [NaN, NaN, NaN],
                 times = [Fin 0, Fin (512 / 22050), Fin (1024 / 22050)]\<rparr>,
          spectral_centroid = \<lparr>values' = [NaN, NaN, NaN],
                 times = [Fin 0, Fin (512 / 22050), Fin (1024 / 22050)]\<rparr>,
          onsets = []\<rparr>
   \<and> main demo_librosa [''extract_audio_features.py'', ''silence.wav'', ''out.json''] demo_world =
     (0, \<lparr>files = (files demo_world)
            (''out.json'' \<mapsto> File ''#;NaN,NaN,NaN,;#,#,#,;NaN,NaN,NaN,;#,#,#,;''),
          stdout = [Saved ''out.json'', Duration (Fin (1024 / 22050)), RmsFrames 3,
                    CentroidFrames 3, OnsetEvents 0]\<rparr>)"
  by (simp add: features_silence run_silence demo_world_files) (simp add: demo_world_def)

section \<open>Properties of the reference analyzers\<close>

lemma ref_librosa_fields:
  "load (ref_librosa decode spectrum flux delta wait dump) = decode"
  "feature_rms (ref_librosa decode spectrum flux delta wait dump) = ref_rms"
  "feature_spectral_centroid (ref_librosa decode spectrum flux delta wait dump)
     = ref_spectral_centroid spectrum"
  "onset_detect (ref_librosa decode spectrum flux delta wait dump)
     = ref_onset_detect flux delta wait"
  "json_dump (ref_librosa decode spectrum flux delta wait dump) = dump"
  by (simp_all add: ref_librosa_def)

lemma ref_picks_bound:
  assumes "k \<in> set (peak_pick (onset_strength flux (frame (pad_center y 2048) 2048 512)) delta wait)"
  shows "k \<le> length y div 512"
  using set_peak_pick [OF assms]
  by (simp add: length_onset_strength length_centred_frames)

lemma sorted_map_grid:
  assumes "sorted ks"
  shows "sorted (map (\<lambda>k. real (k * h) / real sr) ks)"
proof -
  have "real (a * h) / real sr \<le> real (b * h) / real sr" if "a \<le> b" for a b :: nat
    using that by (simp add: divide_right_mono mult_right_mono)
  with assms show ?thesis
    by (simp add: sorted_map sorted_wrt_mono_rel [of ks "(\<le>)"])
qed

lemma ref_onsets_eq:
  assumes "0 < sr"
  shows "ref_onset_detect flux delta wait y sr =
     map Fin (map (\<lambda>k. real (k * 512) / real sr)
       (peak_pick (onset_strength flux (frame (pad_center y 2048) 2048 512)) delta wait))"
  using assms by (simp add: ref_onset_detect_def frames_to_time_Fin)

text \<open>
  Claim C2, as the reference analyzers have it. Frames are centred: the buffer is padded
  with 1024 zeros at both ends before it is cut into windows of 2048 samples every 512,
  so both sequences have \<open>floor (len / 512) + 1\<close> frames, the claim's formula applied to
  the padded buffer.
\<close>

theorem centred_frame_count:
  "length (ref_rms y 2048 512) = length y div 512 + 1
   \<and> length (ref_spectral_centroid spectrum y sr) = length y div 512 + 1"
  by (simp add: length_ref_rms length_ref_spectral_centroid)

text \<open>
  Claim C2 as stated fails on a buffer of exactly one window: the claim's formula gives
  one frame, the centred analyzer five.
\<close>

theorem one_window_counterexample:
  "length (ref_rms (replicate 2048 0) 2048 512) = 5
   \<and> (int (length (replicate 2048 (0::real))) - 2048) div 512 + 1 = 1
   \<and> int (length (ref_rms (replicate 2048 0) 2048 512))
       \<noteq> (int (length (replicate 2048 (0::real))) - 2048) div 512 + 1"
  by (simp add: length_ref_rms)

text \<open>
  Claim C6, on the reference onset detector. For a positive sample rate the onsets of
  the record are finite and in non-decreasing order, and each lies between 0 and the
  duration.
\<close>

theorem onsets_sorted_within_duration:
  assumes "compute_features (ref_librosa decode spectrum flux delta wait dump) y sr = Inr ft"
    and "0 < sr"
  shows "\<exists>ts d. onsets ft = map Fin ts \<and> duration ft = Fin d
     \<and> sorted ts \<and> (\<forall>t \<in> set ts. 0 \<le> t \<and> t \<le> d)"
proof -
  let ?picks = "peak_pick (onset_strength flux (frame (pad_center y 2048) 2048 512)) delta wait"
  let ?ts = "map (\<lambda>k. real (k * 512) / real sr) ?picks"
  let ?d = "real (length y) / real sr"
  from assms(1) have o: "onsets ft = ref_onset_detect flux delta wait y sr"
    and d: "duration ft = get_duration y sr"
    by (elim compute_features_Inr, simp add: ref_librosa_fields)+
  have 1: "onsets ft = map Fin ?ts"
    using o ref_onsets_eq [OF assms(2)] by simp
  have 2: "duration ft = Fin ?d"
    using d assms(2) by (simp add: get_duration_def np_div_def)
  have 3: "sorted ?ts"
    by (rule sorted_map_grid) (rule sorted_peak_pick)
  have 4: "0 \<le> t \<and> t \<le> ?d" if "t \<in> set ?ts" for t
  proof -
    from that obtain k where k: "k \<in> set ?picks" and t: "t = real (k * 512) / real sr"
      by auto
    from ref_picks_bound [OF k] have "k * 512 \<le> length y" by simp
    then have "real (k * 512) \<le> real (length y)"
      by (simp only: of_nat_le_iff)
    then show ?thesis
      unfolding t using assms(2) by (simp add: divide_right_mono)
  qed
  from 1 2 3 4 show ?thesis by blast
qed

text \<open>Claim C6 on the burst recording: one onset, at frame 1.\<close>

theorem onsets_sorted_within_duration_witness:
  "(\<exists>ft. compute_features demo_librosa (replicate 1536 1) 22050 = Inr ft
      \<and> onsets ft = map Fin [512 / 22050]
      \<and> duration ft = Fin (1536 / 22050)
      \<and> sorted [512 / 22050 :: real]
      \<and> (0::real) \<le> 512 / 22050 \<and> (512 / 22050 :: real) \<le> 1536 / 22050)"
proof -
  have pos: "(0::nat) < 22050" by simp
  obtain ft where ft: "compute_features demo_librosa (replicate 1536 1) 22050 = Inr ft"
    "onsets ft = [Fin (512 / 22050)]" "duration ft = Fin (1536 / 22050)"
    by (simp add: features_burst)
  from onsets_sorted_within_duration [OF ft(1) [unfolded demo_librosa_def] pos]
  obtain ts d where r: "onsets ft = map Fin ts" "duration ft = Fin d"
    "sorted ts" "\<forall>t \<in> set ts. 0 \<le> t \<and> t \<le> d"
    by blast
  from r(1) ft(2) have ts: "ts = [512 / 22050]"
    by (cases ts) auto
  from r(2) ft(3) have d: "d = 1536 / 22050"
    by (simp del: divide_eq_eq_numeral1 eq_divide_eq_numeral1)
  from r(3,4) have "sorted [512 / 22050 :: real]"
    "(0::real) \<le> 512 / 22050 \<and> (512 / 22050 :: real) \<le> 1536 / 22050"
    unfolding ts d by simp_all
  with ft show ?thesis by auto
qed

text \<open>
  Claim C10, on the reference onset detector. For a positive sample rate every onset of
  the record is \<open>k \<cdot> 512 / sample_rate\<close> for a frame index \<open>k\<close>, and is the entry \<open>k\<close>
  of the time axis.
\<close>

theorem onsets_on_time_grid:
  assumes "compute_features (ref_librosa decode spectrum flux delta wait dump) y sr = Inr ft"
    and "0 < sr"
  shows "\<forall>t \<in> set (onsets ft). \<exists>k < length (times (rms ft)).
           t = Fin (real (k * 512) / real sr) \<and> t = times (rms ft) ! k"
proof
  fix t assume t: "t \<in> set (onsets ft)"
  let ?picks = "peak_pick (onset_strength flux (frame (pad_center y 2048) 2048 512)) delta wait"
  from assms(1) have o: "onsets ft = ref_onset_detect flux delta wait y sr"
    and a: "times (rms ft) = frames_to_time (np_arange (length (ref_rms y 2048 512))) sr 512"
    by (elim compute_features_Inr, simp add: ref_librosa_fields)+
  from t o ref_onsets_eq [OF assms(2)] obtain k where
    k: "k \<in> set ?picks" and tk: "t = Fin (real (k * 512) / real sr)"
    by auto
  from ref_picks_bound [OF k] have lt: "k < length y div 512 + 1" by simp
  have len: "length (times (rms ft)) = length y div 512 + 1"
    by (simp add: a frames_to_time_def np_arange_def length_ref_rms)
  have "times (rms ft) ! k = Fin (real (k * 512) / real sr)"
    using lt assms(2)
    by (simp add: a frames_to_time_Fin np_arange_def length_ref_rms del: upt_Suc)
  with tk lt len
  show "\<exists>k < length (times (rms ft)). t = Fin (real (k * 512) / real sr) \<and> t = times (rms ft) ! k"
    by auto
qed

text \<open>Claim C10 on the burst recording: the onset is entry 1 of the time axis.\<close>

theorem onsets_on_time_grid_witness:
  "(\<exists>ft. compute_features demo_librosa (replicate 1536 1) 22050 = Inr ft
      \<and> onsets ft = [Fin (real (1 * 512) / real 22050)]
      \<and> 1 < length (times (rms ft))
      \<and> times (rms ft) ! 1 = Fin (real (1 * 512) / real 22050))"
proof -
  have pos: "(0::nat) < 22050" by simp
  from onsets_on_time_grid [OF features_burst [unfolded demo_librosa_def] pos]
  have "\<exists>k < 4. Fin (512 / 22050) = Fin (real (k * 512) / real 22050)
      \<and> Fin (512 / 22050) = [Fin 0, Fin (512 / 22050), Fin (1024 / 22050), Fin (1536 / (22050::real))] ! k"
    by simp
  then show ?thesis
    by (simp add: features_burst)
qed

end
